theory Spec2Isabelle
  imports Main "HOL-Library.Multiset"
begin

section \<open>Values shared by the models\<close>

text \<open>
  An ObjectId is an opaque key, a JavaScript \<open>Date\<close> is its number of milliseconds since
  the epoch. A field that may be \<open>undefined\<close> is an \<open>option\<close>. Messages are written
  without their accents (the text is ASCII).
\<close>

type_synonym objectId = nat
type_synonym fecha = int

text \<open>
  Everything that can be thrown or handed to \<open>next\<close>: \<open>new AppError(message, statusCode)\<close>,
  a Mongoose \<open>ValidationError\<close> (with the paths that failed), a plain \<open>new Error(message)\<close>,
  a \<open>TypeError\<close> of the runtime, and a write the database driver rejected.
\<close>

datatype error =
    AppError string nat
  | ValidationError "string list"
  | ErrorJS string
  | TypeError string
  | MongoError string

section \<open>Data model\<close>

subsection \<open>AuditLog (models/AuditLog.js)\<close>

record entidad =
  ent_tipo :: "string option"
  ent_id :: "objectId option"

record seguridad =
  seg_ip :: "string option"
  seg_userAgent :: "string option"
  seg_sessionId :: "string option"

record resultado =
  res_exitoso :: "bool option"
  res_mensaje :: "string option"
  res_codigoError :: "string option"

text \<open>
  A document of \<open>auditLogSchema\<close>. \<open>al_isNew\<close> is Mongoose's \<open>isNew\<close> flag of the
  in-memory document. \<open>detalles\<close> holds the keys of the payload that the schema knows.
\<close>

record auditLog =
  al_id :: objectId
  al_isNew :: bool
  usuario :: "objectId option"
  rolUsuario :: "string option"
  accion :: "string option"
  al_entidad :: entidad
  detalles :: "(string \<times> string) list"
  al_seguridad :: seguridad
  al_resultado :: resultado
  timestamp :: fecha

text \<open>
  The object literal handed to \<open>AuditLog.registrar\<close>. The keys \<open>d_ip\<close> ... \<open>d_codigoError\<close>
  are the top-level keys \<open>registrar\<close> reads (\<open>datos.ip\<close>, \<open>datos.exitoso\<close>, ...); \<open>d_seguridad\<close>
  and \<open>d_resultado\<close> are the nested objects the callers of this repository pass.
\<close>

record datos =
  d_usuario :: "objectId option"
  d_rolUsuario :: "string option"
  d_accion :: "string option"
  d_entidad :: "entidad option"
  d_detalles :: "(string \<times> string) list option"
  d_ip :: "string option"
  d_userAgent :: "string option"
  d_sessionId :: "string option"
  d_exitoso :: "bool option"
  d_mensaje :: "string option"
  d_codigoError :: "string option"
  d_seguridad :: "seguridad option"
  d_resultado :: "resultado option"

subsection \<open>Firma (models/Firma.js)\<close>

record vigencia =
  inicio :: "fecha option"
  fin :: "fecha option"

record certificado =
  numeroSerie :: "string option"
  emisor :: "string option"
  cert_vigencia :: vigencia
  certificadoPublico :: "string option"

record selloFirma =
  algoritmo :: "string option"
  cadenaOriginal :: "string option"
  selloDigital :: "string option"
  hashDocumento :: "string option"

record revocacion =
  rev_fecha :: "fecha option"
  rev_motivo :: "string option"
  revocadaPor :: "objectId option"

text \<open>
  A document of \<open>firmaSchema\<close>. The issuer's name parts, the time-stamping authority and the
  device metadata are left out: no operation reads them and the schema does not constrain
  them.
\<close>

record firma =
  f_id :: objectId
  f_isNew :: bool
  f_expediente :: "objectId option"
  firmante :: "objectId option"
  f_certificado :: certificado
  f_firma :: selloFirma
  f_fecha :: "fecha option"
  proposito :: "string option"
  f_estado :: "string option"
  f_revocacion :: revocacion

text \<open>The object returned by \<open>verificarFirma\<close>: \<open>{valida, mensaje, detalles?, error?}\<close>.\<close>

record verificacion =
  valida :: bool
  v_mensaje :: string
  v_detalles :: "revocacion option"
  v_error :: "string option"

subsection \<open>Expediente (models/Expediente.js)\<close>

record contenido =
  c_fecha :: "fecha option"
  motivo :: "string option"
  padecimientoActual :: "string option"
  diagnostico :: "string option"
  tratamiento :: "string option"
  pronostico :: "string option"
  datosEspecificos :: "string option"

record documento =
  url :: "string option"
  doc_hash :: "string option"
  createdAt :: "fecha option"

record firmaDigital =
  fd_firmante :: "objectId option"
  fechaFirma :: "fecha option"
  fd_certificado :: "certificado option"
  fd_selloDigital :: "selloFirma option"

text \<open>
  A document of \<open>expedienteSchema\<close>. \<open>e_modContenido\<close> is what \<open>this.isModified('contenido')\<close>
  answers for the in-memory document. The access lists (\<open>permisos\<close>, \<open>historialAccesos\<close>) are
  left out: no operation modelled here reads them.
\<close>

record expediente =
  e_id :: objectId
  e_isNew :: bool
  e_modContenido :: bool
  paciente :: "objectId option"
  tipo :: "string option"
  e_contenido :: contenido
  e_documento :: documento
  e_firmaDigital :: firmaDigital
  estado :: "string option"
  createdBy :: "objectId option"
  active :: bool

subsection \<open>Requests\<close>

record user =
  u_id :: objectId
  role :: string
  pacienteId :: "objectId option"

record certificadoReq =
  rq_numeroSerie :: "string option"
  rq_emisor :: "string option"
  rq_inicio :: "fecha option"
  rq_fin :: "fecha option"

text \<open>
  The query string of the audit routes. Dates and numbers are given as the values
  \<open>new Date(...)\<close> and \<open>parseInt(..., 10)\<close> produce (\<open>None\<close>: absent, or \<open>NaN\<close> for a number).
\<close>

record query =
  q_usuario :: "objectId option"
  q_rolUsuario :: "string option"
  q_accion :: "string option"
  q_entidadTipo :: "string option"
  q_entidadId :: "objectId option"
  q_exitoso :: "string option"
  q_fechaInicio :: "fecha option"
  q_fechaFin :: "fecha option"
  q_page :: "int option"
  q_limit :: "int option"

record request =
  req_user :: user
  params_id :: objectId
  body_certificado :: "certificadoReq option"
  req_query :: query
  req_ip :: "string option"
  req_userAgent :: "string option"
  req_sessionID :: "string option"

subsection \<open>The environment and the state\<close>

text \<open>
  What the code takes from outside the repository: the size in bytes of a stored audit
  document, \<open>crypto.createHash('sha256').update(s).digest('hex')\<close>, \<open>JSON.stringify\<close> on a
  record's content, and \<open>crypto.createVerify(alg).update(cadena).verify(cert, sello)\<close>, which
  may throw.
\<close>

record entorno =
  bsonSize :: "auditLog \<Rightarrow> nat"
  sha256hex :: "string \<Rightarrow> string"
  jsonStringify :: "contenido \<Rightarrow> string"
  cryptoVerify :: "string \<Rightarrow> string \<Rightarrow> string \<Rightarrow> string \<Rightarrow> error + bool"

datatype coleccion = ColAuditLog | ColFirma | ColExpediente

text \<open>
  The database and the diagnostic channel. Each collection is the list of its documents in
  insertion order (oldest first). \<open>consola\<close> holds the calls of \<open>console.error\<close>.
  \<open>caidas\<close> are the collections whose writes the driver rejects (the store is unreachable).
  \<open>proximoId\<close> is the next fresh ObjectId.
\<close>

record sistema =
  auditLogs :: "auditLog list"
  firmas :: "firma list"
  expedientes :: "expediente list"
  consola :: "(string \<times> error) list"
  caidas :: "coleccion set"
  proximoId :: nat

section \<open>Schema validation\<close>

text \<open>
  \<open>required: true\<close> rejects \<open>undefined\<close>, and for a String path the empty string as well.
  An \<open>enum\<close> validator only runs on a value that is present.
\<close>

definition requerido :: "'a option \<Rightarrow> bool" where
  "requerido v = (v \<noteq> None)"

definition requeridoStr :: "string option \<Rightarrow> bool" where
  "requeridoStr v = (case v of None \<Rightarrow> False | Some s \<Rightarrow> s \<noteq> [])"

definition enEnum :: "string list \<Rightarrow> string option \<Rightarrow> bool" where
  "enEnum vs v = (case v of None \<Rightarrow> True | Some s \<Rightarrow> s \<in> set vs)"

definition falla :: "bool \<Rightarrow> string \<Rightarrow> string list" where
  "falla ok ruta = (if ok then [] else [ruta])"

definition enum_rolUsuario :: "string list" where
  "enum_rolUsuario = [''admin'', ''doctor'', ''paciente'']"

definition enum_accion :: "string list" where
  "enum_accion = [''login'', ''logout'', ''reset_password'', ''change_password'',
     ''crear'', ''leer'', ''actualizar'', ''eliminar'',
     ''firmar_documento'', ''generar_pdf'', ''subir_archivo'', ''descargar_archivo'',
     ''otorgar_acceso'', ''revocar_acceso'']"

definition enum_entidadTipo :: "string list" where
  "enum_entidadTipo = [''Usuario'', ''Paciente'', ''Expediente'', ''Documento'']"

text \<open>The paths of \<open>auditLogSchema\<close> that fail validation (none: the document is valid).\<close>

definition validar_auditLog :: "auditLog \<Rightarrow> string list" where
  "validar_auditLog d =
     falla (requerido (usuario d)) ''usuario'' @
     falla (requeridoStr (rolUsuario d) \<and> enEnum enum_rolUsuario (rolUsuario d)) ''rolUsuario'' @
     falla (requeridoStr (accion d) \<and> enEnum enum_accion (accion d)) ''accion'' @
     falla (requeridoStr (ent_tipo (al_entidad d)) \<and> enEnum enum_entidadTipo (ent_tipo (al_entidad d)))
       ''entidad.tipo'' @
     falla (requerido (ent_id (al_entidad d))) ''entidad.id'' @
     falla (requeridoStr (seg_ip (al_seguridad d))) ''seguridad.ip'' @
     falla (requerido (res_exitoso (al_resultado d))) ''resultado.exitoso''"

section \<open>The audit collection\<close>

subsection \<open>The capped collection\<close>

text \<open>
  The schema option \<open>capped: { size: 5242880, max: 10000 }\<close>: the collection holds at most
  \<open>max\<close> documents and \<open>size\<close> bytes. An insert appends the document and the storage engine
  removes documents from the oldest end until both ceilings hold again; a document larger
  than the whole collection is refused.
\<close>

definition capped_size :: nat where
  "capped_size = 5242880"

definition capped_max :: nat where
  "capped_max = 10000"

definition bytes :: "('a \<Rightarrow> nat) \<Rightarrow> 'a list \<Rightarrow> nat" where
  "bytes tam ds = sum_list (map tam ds)"

definition dentro_tope :: "('a \<Rightarrow> nat) \<Rightarrow> nat \<Rightarrow> nat \<Rightarrow> 'a list \<Rightarrow> bool" where
  "dentro_tope tam sz mx ds = (length ds \<le> mx \<and> bytes tam ds \<le> sz)"

fun desalojar :: "('a \<Rightarrow> nat) \<Rightarrow> nat \<Rightarrow> nat \<Rightarrow> 'a list \<Rightarrow> 'a list" where
  "desalojar tam sz mx [] = []"
| "desalojar tam sz mx (d # ds) =
     (if dentro_tope tam sz mx (d # ds) then d # ds else desalojar tam sz mx ds)"

definition insertar_capped ::
  "('a \<Rightarrow> nat) \<Rightarrow> nat \<Rightarrow> nat \<Rightarrow> 'a list \<Rightarrow> 'a \<Rightarrow> error + 'a list" where
  "insertar_capped tam sz mx ds d =
     (if sz < tam d then Inl (MongoError ''object to insert exceeds cappedMaxSize'')
      else Inr (desalojar tam sz mx (ds @ [d])))"

subsection \<open>Saving an audit document\<close>

definition msg_inmutable :: string where
  "msg_inmutable = ''Los registros de auditoria no pueden ser modificados''"

text \<open>\<open>auditLogSchema.pre('save')\<close>: a document that is not new is refused.\<close>

definition auditLog_pre_save :: "auditLog \<Rightarrow> error + unit" where
  "auditLog_pre_save d = (if \<not> al_isNew d then Inl (ErrorJS msg_inmutable) else Inr ())"

text \<open>
  \<open>log.save()\<close>: Mongoose validates the document first (validation is the first
  \<open>pre('save')\<close> hook of every schema), then runs the schema's own \<open>pre('save')\<close> hook, then
  writes. Only a new document reaches the write, which is an insert into the capped
  collection. A failure at any step rejects the promise and writes nothing.
\<close>

definition AuditLog_save :: "entorno \<Rightarrow> auditLog \<Rightarrow> sistema \<Rightarrow> (error + auditLog) \<times> sistema" where
  "AuditLog_save E d st =
     (case validar_auditLog d of
        p # ps \<Rightarrow> (Inl (ValidationError (p # ps)), st)
      | [] \<Rightarrow>
         (case auditLog_pre_save d of
            Inl e \<Rightarrow> (Inl e, st)
          | Inr _ \<Rightarrow>
             if ColAuditLog \<in> caidas st then (Inl (MongoError ''insert''), st)
             else
               (case insertar_capped (bsonSize E) capped_size capped_max (auditLogs st)
                       (d\<lparr>al_isNew := False\<rparr>) of
                  Inl e \<Rightarrow> (Inl e, st)
                | Inr ds \<Rightarrow> (Inr (d\<lparr>al_isNew := False\<rparr>), st\<lparr>auditLogs := ds\<rparr>))))"

subsection \<open>\<open>AuditLog.registrar\<close>\<close>

text \<open>\<open>new this({...})\<close> in \<open>registrar\<close>: the document built from the top-level keys of \<open>datos\<close>.\<close>

definition AuditLog_new :: "fecha \<Rightarrow> datos \<Rightarrow> objectId \<Rightarrow> auditLog" where
  "AuditLog_new ahora dt i =
     \<lparr> al_id = i, al_isNew = True,
       usuario = d_usuario dt,
       rolUsuario = d_rolUsuario dt,
       accion = d_accion dt,
       al_entidad = (case d_entidad dt of None \<Rightarrow> \<lparr>ent_tipo = None, ent_id = None\<rparr> | Some e \<Rightarrow> e),
       detalles = (case d_detalles dt of None \<Rightarrow> [] | Some x \<Rightarrow> x),
       al_seguridad = \<lparr>seg_ip = d_ip dt, seg_userAgent = d_userAgent dt, seg_sessionId = d_sessionId dt\<rparr>,
       al_resultado = \<lparr>res_exitoso = d_exitoso dt, res_mensaje = d_mensaje dt,
                       res_codigoError = d_codigoError dt\<rparr>,
       timestamp = ahora \<rparr>"

text \<open>The body of the \<open>try\<close> block: build the document, save it, return it.\<close>

definition registrar_try :: "entorno \<Rightarrow> fecha \<Rightarrow> datos \<Rightarrow> sistema \<Rightarrow> (error + auditLog) \<times> sistema" where
  "registrar_try E ahora dt st =
     AuditLog_save E (AuditLog_new ahora dt (proximoId st)) (st\<lparr>proximoId := Suc (proximoId st)\<rparr>)"

text \<open>
  \<open>auditLogSchema.statics.registrar\<close>: the \<open>catch\<close> writes the error to \<open>console.error\<close> and
  returns \<open>null\<close>.
\<close>

definition AuditLog_registrar ::
  "entorno \<Rightarrow> fecha \<Rightarrow> datos \<Rightarrow> sistema \<Rightarrow> (error + auditLog option) \<times> sistema" where
  "AuditLog_registrar E ahora dt st =
     (case registrar_try E ahora dt st of
        (Inl e, st1) \<Rightarrow> (Inr None, st1\<lparr>consola := consola st1 @ [(''Error al registrar auditoria:'', e)]\<rparr>)
      | (Inr lg, st1) \<Rightarrow> (Inr (Some lg), st1))"


subsection \<open>The callers of \<open>registrar\<close>\<close>

text \<open>
  Every caller in the repository passes the network context and the outcome as nested
  objects \<open>seguridad\<close> and \<open>resultado\<close>, and no top-level \<open>ip\<close>, \<open>exitoso\<close>, ... key.
  Their \<open>detalles\<close> payloads have none of the keys of the schema (\<open>cambios\<close>, \<open>metadata\<close>),
  so the document built from them holds the empty object.
\<close>

definition datos_anidados ::
  "request \<Rightarrow> string \<Rightarrow> entidad \<Rightarrow> (string \<times> string) list option \<Rightarrow> resultado \<Rightarrow> datos" where
  "datos_anidados req acc ent det res =
     \<lparr> d_usuario = Some (u_id (req_user req)),
       d_rolUsuario = Some (role (req_user req)),
       d_accion = Some acc,
       d_entidad = Some ent,
       d_detalles = det,
       d_ip = None, d_userAgent = None, d_sessionId = None,
       d_exitoso = None, d_mensaje = None, d_codigoError = None,
       d_seguridad = Some \<lparr>seg_ip = req_ip req, seg_userAgent = req_userAgent req,
                            seg_sessionId = req_sessionID req\<rparr>,
       d_resultado = Some res \<rparr>"

text \<open>\<open>registrarAuditoria\<close> of controllers/expedienteController.js.\<close>

definition registrarAuditoria ::
  "entorno \<Rightarrow> fecha \<Rightarrow> request \<Rightarrow> string \<Rightarrow> objectId option \<Rightarrow> (string \<times> string) list option \<Rightarrow>
   bool \<Rightarrow> string \<Rightarrow> sistema \<Rightarrow> (error + unit) \<times> sistema" where
  "registrarAuditoria E ahora req acc entidadId det exi men st =
     (case AuditLog_registrar E ahora
             (datos_anidados req acc \<lparr>ent_tipo = Some ''Expediente'', ent_id = entidadId\<rparr> det
                \<lparr>res_exitoso = Some exi, res_mensaje = Some men, res_codigoError = None\<rparr>) st of
        (Inl e, st1) \<Rightarrow> (Inl e, st1)
      | (Inr _, st1) \<Rightarrow> (Inr (), st1))"


text \<open>\<open>error.message\<close>; the message of a ValidationError is cut to its first words.\<close>

fun mensaje_de :: "error \<Rightarrow> string" where
  "mensaje_de (AppError m c) = m"
| "mensaje_de (ValidationError ps) = ''Validation failed''"
| "mensaje_de (ErrorJS m) = m"
| "mensaje_de (TypeError m) = m"
| "mensaje_de (MongoError m) = m"

text \<open>
  \<open>logError\<close> of middlewares/errorHandler.js, the audit step of \<open>errorHandler\<close>: it asks
  \<open>registrar\<close> for a record of the failure, and writes to \<open>console.error\<close> should
  \<open>registrar\<close> throw.
\<close>

definition logError :: "entorno \<Rightarrow> fecha \<Rightarrow> error \<Rightarrow> request \<Rightarrow> sistema \<Rightarrow> sistema" where
  "logError E ahora err req st =
     (case AuditLog_registrar E ahora
             (datos_anidados req ''error_sistema'' \<lparr>ent_tipo = Some ''Sistema'', ent_id = None\<rparr>
                (Some [])
                \<lparr>res_exitoso = Some False, res_mensaje = Some (mensaje_de err),
                  res_codigoError = None\<rparr>) st of
        (Inl e, st1) \<Rightarrow> st1\<lparr>consola := consola st1 @ [(''Error al registrar en audit log:'', e)]\<rparr>
      | (Inr _, st1) \<Rightarrow> st1)"

text \<open>
  \<open>catchAsync(fn)\<close> followed by \<open>errorHandler\<close>: an error the handler throws or hands to
  \<open>next\<close> reaches \<open>errorHandler\<close>, which runs \<open>logError\<close> before it answers. The rendering of
  the error into the HTTP response is not modelled; the error itself stands for it.
\<close>

definition catchAsync ::
  "entorno \<Rightarrow> fecha \<Rightarrow> (request \<Rightarrow> sistema \<Rightarrow> (error + 'r) \<times> sistema) \<Rightarrow>
   request \<Rightarrow> sistema \<Rightarrow> (error + 'r) \<times> sistema" where
  "catchAsync E ahora fn req st =
     (case fn req st of
        (Inl e, st1) \<Rightarrow> (Inl e, logError E ahora e req st1)
      | (Inr r, st1) \<Rightarrow> (Inr r, st1))"

subsection \<open>Queries\<close>

text \<open>
  The query object handed to \<open>find\<close>: an absent key puts no condition, \<open>fm_gte\<close> and \<open>fm_lte\<close>
  are \<open>timestamp.$gte\<close> and \<open>timestamp.$lte\<close>.
\<close>

record filtroMongo =
  fm_usuario :: "objectId option"
  fm_rolUsuario :: "string option"
  fm_accion :: "string option"
  fm_entidadTipo :: "string option"
  fm_entidadId :: "objectId option"
  fm_exitoso :: "bool option"
  fm_gte :: "fecha option"
  fm_lte :: "fecha option"

definition igual :: "'a option \<Rightarrow> 'a option \<Rightarrow> bool" where
  "igual cond v = (case cond of None \<Rightarrow> True | Some x \<Rightarrow> v = Some x)"

definition coincide :: "filtroMongo \<Rightarrow> auditLog \<Rightarrow> bool" where
  "coincide q d =
     (igual (fm_usuario q) (usuario d) \<and>
      igual (fm_rolUsuario q) (rolUsuario d) \<and>
      igual (fm_accion q) (accion d) \<and>
      igual (fm_entidadTipo q) (ent_tipo (al_entidad d)) \<and>
      igual (fm_entidadId q) (ent_id (al_entidad d)) \<and>
      igual (fm_exitoso q) (res_exitoso (al_resultado d)) \<and>
      (case fm_gte q of None \<Rightarrow> True | Some t \<Rightarrow> t \<le> timestamp d) \<and>
      (case fm_lte q of None \<Rightarrow> True | Some t \<Rightarrow> timestamp d \<le> t))"

text \<open>
  \<open>find(q).sort({ timestamp: -1 }).skip(s).limit(l)\<close>: the database sorts, then skips, then
  limits, in whatever order the calls are chained. Among equal timestamps the order is the
  database's choice; here it is insertion order. \<open>populate\<close> only decorates \<open>usuario\<close> and
  is left out.
\<close>

definition ordenar_desc :: "auditLog list \<Rightarrow> auditLog list" where
  "ordenar_desc ds = sort_key (\<lambda>d. - timestamp d) ds"

definition AuditLog_find :: "filtroMongo \<Rightarrow> nat \<Rightarrow> nat \<Rightarrow> sistema \<Rightarrow> auditLog list" where
  "AuditLog_find q s l st = take l (drop s (ordenar_desc (filter (coincide q) (auditLogs st))))"











section \<open>Signatures\<close>

definition enum_algoritmo :: "string list" where
  "enum_algoritmo = [''RSA-SHA256'', ''ECDSA-P256-SHA256'']"

definition enum_proposito :: "string list" where
  "enum_proposito = [''creacion_expediente'', ''actualizacion_expediente'', ''nota_medica'',
     ''receta'', ''consentimiento_informado'', ''resultado_laboratorio'']"

definition enum_estadoFirma :: "string list" where
  "enum_estadoFirma = [''valida'', ''revocada'', ''expirada'']"

text \<open>The paths of \<open>firmaSchema\<close> that fail validation.\<close>

definition validar_firma :: "firma \<Rightarrow> string list" where
  "validar_firma f =
     falla (requerido (f_expediente f)) ''expediente'' @
     falla (requerido (firmante f)) ''firmante'' @
     falla (requeridoStr (numeroSerie (f_certificado f))) ''certificado.numeroSerie'' @
     falla (requerido (inicio (cert_vigencia (f_certificado f)))) ''certificado.vigencia.inicio'' @
     falla (requerido (fin (cert_vigencia (f_certificado f)))) ''certificado.vigencia.fin'' @
     falla (requeridoStr (certificadoPublico (f_certificado f))) ''certificado.certificadoPublico'' @
     falla (enEnum enum_algoritmo (algoritmo (f_firma f))) ''firma.algoritmo'' @
     falla (requeridoStr (cadenaOriginal (f_firma f))) ''firma.cadenaOriginal'' @
     falla (requeridoStr (selloDigital (f_firma f))) ''firma.selloDigital'' @
     falla (requeridoStr (hashDocumento (f_firma f))) ''firma.hashDocumento'' @
     falla (requerido (f_fecha f)) ''timestamp.fecha'' @
     falla (requeridoStr (proposito f) \<and> enEnum enum_proposito (proposito f)) ''metadata.proposito'' @
     falla (enEnum enum_estadoFirma (f_estado f)) ''estado''"

text \<open>
  \<open>save()\<close> on a Firma: validation, then the write: an insert for a new document, otherwise
  an update of the stored document with the same \<open>_id\<close> (which must exist). \<open>firmaSchema\<close>
  has no hook of its own.
\<close>

definition Firma_save :: "firma \<Rightarrow> sistema \<Rightarrow> (error + firma) \<times> sistema" where
  "Firma_save f st =
     (case validar_firma f of
        p # ps \<Rightarrow> (Inl (ValidationError (p # ps)), st)
      | [] \<Rightarrow>
         if ColFirma \<in> caidas st then (Inl (MongoError ''write''), st)
         else if f_isNew f
           then (Inr (f\<lparr>f_isNew := False\<rparr>), st\<lparr>firmas := firmas st @ [f\<lparr>f_isNew := False\<rparr>]\<rparr>)
         else if f_id f \<in> f_id ` set (firmas st)
           then (Inr f, st\<lparr>firmas := map (\<lambda>x. if f_id x = f_id f then f else x) (firmas st)\<rparr>)
         else (Inl (MongoError ''DocumentNotFoundError''), st))"

text \<open>Step 3 of \<open>verificarFirma\<close>: every call of it throws a TypeError on \<open>undefined\<close>.\<close>

definition verificar_sello :: "entorno \<Rightarrow> firma \<Rightarrow> error + bool" where
  "verificar_sello E f =
     (case algoritmo (f_firma f) of
        None \<Rightarrow> Inl (TypeError ''algorithm'')
      | Some a \<Rightarrow>
         (case cadenaOriginal (f_firma f) of
            None \<Rightarrow> Inl (TypeError ''data'')
          | Some c \<Rightarrow>
             (case selloDigital (f_firma f) of
                None \<Rightarrow> Inl (TypeError ''signature'')
              | Some s \<Rightarrow>
                 (case certificadoPublico (f_certificado f) of
                    None \<Rightarrow> Inl (TypeError ''key'')
                  | Some p \<Rightarrow> cryptoVerify E a c p s))))"

definition antes_de :: "fecha \<Rightarrow> fecha option \<Rightarrow> bool" where
  "antes_de a v = (case v of None \<Rightarrow> False | Some i \<Rightarrow> a < i)"

definition despues_de :: "fecha \<Rightarrow> fecha option \<Rightarrow> bool" where
  "despues_de a v = (case v of None \<Rightarrow> False | Some i \<Rightarrow> i < a)"

text \<open>
  \<open>firmaSchema.methods.verificarFirma\<close>, with \<open>ahora\<close> the value of \<open>new Date()\<close>. A
  comparison with an \<open>undefined\<close> date is false.
\<close>

definition verificarFirma :: "entorno \<Rightarrow> fecha \<Rightarrow> firma \<Rightarrow> verificacion" where
  "verificarFirma E ahora f =
     (if antes_de ahora (inicio (cert_vigencia (f_certificado f))) \<or>
         despues_de ahora (fin (cert_vigencia (f_certificado f)))
      then \<lparr>valida = False, v_mensaje = ''El certificado ha expirado'',
            v_detalles = None, v_error = None\<rparr>
      else if f_estado f = Some ''revocada''
      then \<lparr>valida = False, v_mensaje = ''La firma ha sido revocada'',
            v_detalles = Some (f_revocacion f), v_error = None\<rparr>
      else
        (case verificar_sello E f of
           Inl e \<Rightarrow> \<lparr>valida = False, v_mensaje = ''Error al verificar la firma'',
                     v_detalles = None, v_error = Some (mensaje_de e)\<rparr>
         | Inr ok \<Rightarrow> \<lparr>valida = ok, v_mensaje = (if ok then ''Firma valida'' else ''Firma invalida''),
                      v_detalles = None, v_error = None\<rparr>))"

text \<open>The object \<open>revocar\<close> hands to \<open>registrar\<close>: it has a \<open>resultado\<close> and no \<open>seguridad\<close>.\<close>

definition datos_revocar :: "user \<Rightarrow> firma \<Rightarrow> datos" where
  "datos_revocar usr f =
     \<lparr> d_usuario = Some (u_id usr),
       d_rolUsuario = Some (role usr),
       d_accion = Some ''revocar_firma'',
       d_entidad = Some \<lparr>ent_tipo = Some ''Firma'', ent_id = Some (f_id f)\<rparr>,
       d_detalles = Some [],
       d_ip = None, d_userAgent = None, d_sessionId = None,
       d_exitoso = None, d_mensaje = None, d_codigoError = None,
       d_seguridad = None,
       d_resultado = Some \<lparr>res_exitoso = Some True,
                            res_mensaje = Some ''Firma revocada exitosamente'',
                            res_codigoError = None\<rparr> \<rparr>"

text \<open>
  \<open>firmaSchema.methods.revocar\<close>. The answer is \<open>this\<close> after the call (the method itself
  returns nothing).
\<close>

definition Firma_revocar ::
  "entorno \<Rightarrow> fecha \<Rightarrow> user \<Rightarrow> string option \<Rightarrow> firma \<Rightarrow> sistema \<Rightarrow> (error + firma) \<times> sistema" where
  "Firma_revocar E ahora usr mot f st =
     (case Firma_save
             (f\<lparr>f_estado := Some ''revocada'',
                f_revocacion := \<lparr>rev_fecha = Some ahora, rev_motivo = mot,
                                  revocadaPor = Some (u_id usr)\<rparr>\<rparr>) st of
        (Inl e, st1) \<Rightarrow> (Inl e, st1)
      | (Inr f1, st1) \<Rightarrow>
         (case AuditLog_registrar E ahora (datos_revocar usr f1) st1 of
            (Inl e, st2) \<Rightarrow> (Inl e, st2)
          | (Inr _, st2) \<Rightarrow> (Inr f1, st2)))"

section \<open>Clinical records\<close>

definition enum_tipo :: "string list" where
  "enum_tipo = [''historia_clinica'', ''nota_evolucion'', ''nota_interconsulta'',
     ''nota_referencia'', ''nota_urgencias'', ''nota_hospitalizacion'',
     ''consentimiento_informado'', ''resultado_laboratorio'', ''estudio_imagen'',
     ''receta_medica'']"

definition enum_estado :: "string list" where
  "enum_estado = [''borrador'', ''firmado'', ''cancelado'']"

text \<open>
  The paths of \<open>expedienteSchema\<close> that fail validation. \<open>firmaDigital\<close> is a nested path,
  not a subdocument, so its two required fields are required of every record.
\<close>

definition validar_expediente :: "expediente \<Rightarrow> string list" where
  "validar_expediente e =
     falla (requerido (paciente e)) ''paciente'' @
     falla (requeridoStr (tipo e) \<and> enEnum enum_tipo (tipo e)) ''tipo'' @
     falla (requerido (c_fecha (e_contenido e))) ''contenido.fecha'' @
     falla (requerido (datosEspecificos (e_contenido e))) ''contenido.datosEspecificos'' @
     falla (requerido (fd_firmante (e_firmaDigital e))) ''firmaDigital.firmante'' @
     falla (requerido (fechaFirma (e_firmaDigital e))) ''firmaDigital.fechaFirma'' @
     falla (enEnum enum_estado (estado e)) ''estado'' @
     falla (requerido (createdBy e)) ''createdBy''"

text \<open>The digest both the hook and \<open>verificarIntegridad\<close> compute.\<close>

definition hashContenido :: "entorno \<Rightarrow> contenido \<Rightarrow> string" where
  "hashContenido E c = sha256hex E (jsonStringify E c)"

text \<open>\<open>expedienteSchema.pre('save')\<close>, with \<open>ahora\<close> the value of \<open>new Date()\<close>.\<close>

definition expediente_pre_save :: "entorno \<Rightarrow> fecha \<Rightarrow> expediente \<Rightarrow> expediente" where
  "expediente_pre_save E ahora e =
     (if e_modContenido e
      then e\<lparr>e_documento := (e_documento e)\<lparr>doc_hash := Some (hashContenido E (e_contenido e)),
                                              createdAt := Some ahora\<rparr>\<rparr>
      else e)"

text \<open>\<open>expedienteSchema.methods.verificarIntegridad\<close>.\<close>

definition verificarIntegridad :: "entorno \<Rightarrow> expediente \<Rightarrow> bool" where
  "verificarIntegridad E e = (Some (hashContenido E (e_contenido e)) = doc_hash (e_documento e))"

text \<open>
  \<open>save()\<close> on an Expediente: validation, the hook, the write. A saved document is neither
  new nor modified.
\<close>

definition Expediente_save ::
  "entorno \<Rightarrow> fecha \<Rightarrow> expediente \<Rightarrow> sistema \<Rightarrow> (error + expediente) \<times> sistema" where
  "Expediente_save E ahora e st =
     (case validar_expediente e of
        p # ps \<Rightarrow> (Inl (ValidationError (p # ps)), st)
      | [] \<Rightarrow>
         let e1 = (expediente_pre_save E ahora e)\<lparr>e_isNew := False, e_modContenido := False\<rparr>
         in if ColExpediente \<in> caidas st then (Inl (MongoError ''write''), st)
            else if e_isNew e
              then (Inr e1, st\<lparr>expedientes := expedientes st @ [e1]\<rparr>)
            else if e_id e \<in> e_id ` set (expedientes st)
              then (Inr e1, st\<lparr>expedientes := map (\<lambda>x. if e_id x = e_id e then e1 else x) (expedientes st)\<rparr>)
            else (Inl (MongoError ''DocumentNotFoundError''), st))"

text \<open>
  \<open>Expediente.findById\<close>: the \<open>pre(/^find/)\<close> hook adds \<open>active: { $ne: false }\<close> to the
  query.
\<close>

definition Expediente_findById :: "sistema \<Rightarrow> objectId \<Rightarrow> expediente option" where
  "Expediente_findById st i = find (\<lambda>e. e_id e = i \<and> active e) (expedientes st)"

section \<open>The record controller (controllers/expedienteController.js)\<close>

text \<open>
  The document \<open>firmarExpediente\<close> asks \<open>Firma.create\<close> for. The keys \<open>expedienteId\<close> and
  \<open>doctorId\<close> of the call are not paths of \<open>firmaSchema\<close> and are dropped, so \<open>expediente\<close>
  and \<open>firmante\<close> are not set; the call gives no \<open>certificadoPublico\<close>, no \<open>firma\<close> block and
  no \<open>proposito\<close>. \<open>algoritmo\<close>, \<open>timestamp.fecha\<close> and \<open>estado\<close> take their defaults.
\<close>

definition firma_de_solicitud :: "fecha \<Rightarrow> objectId \<Rightarrow> certificadoReq \<Rightarrow> firma" where
  "firma_de_solicitud ahora i c =
     \<lparr> f_id = i, f_isNew = True,
       f_expediente = None,
       firmante = None,
       f_certificado = \<lparr>numeroSerie = rq_numeroSerie c, emisor = rq_emisor c,
                         cert_vigencia = \<lparr>inicio = rq_inicio c, fin = rq_fin c\<rparr>,
                         certificadoPublico = None\<rparr>,
       f_firma = \<lparr>algoritmo = Some ''RSA-SHA256'', cadenaOriginal = None, selloDigital = None,
                   hashDocumento = None\<rparr>,
       f_fecha = Some ahora,
       proposito = None,
       f_estado = Some ''valida'',
       f_revocacion = \<lparr>rev_fecha = None, rev_motivo = None, revocadaPor = None\<rparr> \<rparr>"

text \<open>
  \<open>exports.firmarExpediente\<close>. Reading \<open>req.body.certificado.numeroSerie\<close> throws when the
  body has no \<open>certificado\<close>. The rendering of the PDF and its file are outside the model.
\<close>

definition firmarExpediente ::
  "entorno \<Rightarrow> fecha \<Rightarrow> request \<Rightarrow> sistema \<Rightarrow> (error + expediente) \<times> sistema" where
  "firmarExpediente E ahora req st =
     (if role (req_user req) \<noteq> ''doctor''
      then (Inl (AppError ''Solo doctores pueden firmar expedientes'' 403), st)
      else
        (case Expediente_findById st (params_id req) of
           None \<Rightarrow> (Inl (AppError ''No se encontro el expediente'' 404), st)
         | Some ex \<Rightarrow>
            if estado ex = Some ''firmado''
            then (Inl (AppError ''El expediente ya esta firmado'' 400), st)
            else
              (case body_certificado req of
                 None \<Rightarrow> (Inl (TypeError ''Cannot read properties of undefined''), st)
               | Some c \<Rightarrow>
                  (case Firma_save (firma_de_solicitud ahora (proximoId st) c)
                          (st\<lparr>proximoId := Suc (proximoId st)\<rparr>) of
                     (Inl e, st1) \<Rightarrow> (Inl e, st1)
                   | (Inr fi, st1) \<Rightarrow>
                      (case Expediente_save E ahora
                              (ex\<lparr>e_firmaDigital :=
                                     \<lparr>fd_firmante = Some (u_id (req_user req)),
                                      fechaFirma = Some ahora,
                                      fd_certificado = Some (f_certificado fi),
                                      fd_selloDigital = Some (f_firma fi)\<rparr>,
                                   estado := Some ''firmado''\<rparr>) st1 of
                         (Inl e, st2) \<Rightarrow> (Inl e, st2)
                       | (Inr ex1, st2) \<Rightarrow>
                          (case registrarAuditoria E ahora req ''firmar'' (Some (e_id ex1)) (Some [])
                                  True ''Expediente firmado exitosamente'' st2 of
                             (Inl e, st3) \<Rightarrow> (Inl e, st3)
                           | (Inr _, st3) \<Rightarrow> (Inr ex1, st3)))))))"


section \<open>Concrete values for the examples\<close>

definition E0 :: entorno where
  "E0 = \<lparr> bsonSize = (\<lambda>d. 100),
           sha256hex = (\<lambda>s. ''sha256:'' @ s),
           jsonStringify = (\<lambda>c. case motivo c of None \<Rightarrow> ''{}'' | Some m \<Rightarrow> m),
           cryptoVerify = (\<lambda>a c p s. Inr (s = ''sello-bueno'')) \<rparr>"

definition st_vacio :: sistema where
  "st_vacio = \<lparr> auditLogs = [], firmas = [], expedientes = [], consola = [], caidas = {},
                 proximoId = 0 \<rparr>"

definition q_vacia :: query where
  "q_vacia = \<lparr> q_usuario = None, q_rolUsuario = None, q_accion = None, q_entidadTipo = None,
                q_entidadId = None, q_exitoso = None, q_fechaInicio = None, q_fechaFin = None,
                q_page = None, q_limit = None \<rparr>"

definition req_doctor :: request where
  "req_doctor = \<lparr> req_user = \<lparr>u_id = 7, role = ''doctor'', pacienteId = None\<rparr>,
                   params_id = 1,
                   body_certificado = Some \<lparr>rq_numeroSerie = Some ''0001'', rq_emisor = Some ''SAT'',
                                             rq_inicio = Some 1577836800000, rq_fin = Some 1609459200000\<rparr>,
                   req_query = q_vacia,
                   req_ip = Some ''10.0.0.1'', req_userAgent = Some ''curl'', req_sessionID = None \<rparr>"

definition log_login :: auditLog where
  "log_login = \<lparr> al_id = 1, al_isNew = False,
                  usuario = Some 7, rolUsuario = Some ''doctor'', accion = Some ''login'',
                  al_entidad = \<lparr>ent_tipo = Some ''Usuario'', ent_id = Some 7\<rparr>,
                  detalles = [],
                  al_seguridad = \<lparr>seg_ip = Some ''10.0.0.1'', seg_userAgent = None, seg_sessionId = None\<rparr>,
                  al_resultado = \<lparr>res_exitoso = Some False, res_mensaje = None, res_codigoError = None\<rparr>,
                  timestamp = 1704844800000 \<rparr>"

definition firma_ejemplo :: firma where
  "firma_ejemplo =
     \<lparr> f_id = 3, f_isNew = False,
       f_expediente = Some 1,
       firmante = Some 7,
       f_certificado = \<lparr>numeroSerie = Some ''0001'', emisor = Some ''SAT'',
                         cert_vigencia = \<lparr>inicio = Some 1577836800000, fin = Some 1609459200000\<rparr>,
                         certificadoPublico = Some ''PEM''\<rparr>,
       f_firma = \<lparr>algoritmo = Some ''RSA-SHA256'', cadenaOriginal = Some ''cadena'',
                   selloDigital = Some ''sello-bueno'', hashDocumento = Some ''h1''\<rparr>,
       f_fecha = Some 1590000000000,
       proposito = Some ''nota_medica'',
       f_estado = Some ''valida'',
       f_revocacion = \<lparr>rev_fecha = None, rev_motivo = None, revocadaPor = None\<rparr> \<rparr>"

definition firma_revocada :: firma where
  "firma_revocada =
     firma_ejemplo\<lparr>f_estado := Some ''revocada'',
                    f_revocacion := \<lparr>rev_fecha = Some 1600000000000,
                                      rev_motivo = Some ''clave comprometida'',
                                      revocadaPor = Some 9\<rparr>\<rparr>"

definition admin0 :: user where
  "admin0 = \<lparr>u_id = 9, role = ''admin'', pacienteId = None\<rparr>"

definition datos_planos :: datos where
  "datos_planos =
     \<lparr> d_usuario = Some 7, d_rolUsuario = Some ''doctor'', d_accion = Some ''login'',
       d_entidad = Some \<lparr>ent_tipo = Some ''Usuario'', ent_id = Some 7\<rparr>,
       d_detalles = None,
       d_ip = Some ''10.0.0.1'', d_userAgent = Some ''curl'', d_sessionId = None,
       d_exitoso = Some True, d_mensaje = Some ''Login exitoso'', d_codigoError = None,
       d_seguridad = None, d_resultado = None \<rparr>"

definition exp_borrador :: expediente where
  "exp_borrador =
     \<lparr> e_id = 1, e_isNew = False, e_modContenido = False,
       paciente = Some 4,
       tipo = Some ''nota_evolucion'',
       e_contenido = \<lparr>c_fecha = Some 1700000000000, motivo = Some ''dolor'',
                       padecimientoActual = None, diagnostico = None, tratamiento = None,
                       pronostico = None, datosEspecificos = Some ''{}''\<rparr>,
       e_documento = \<lparr>url = Some ''/uploads/expedientes/expediente_1.pdf'',
                       doc_hash = Some ''sha256:dolor'', createdAt = Some 1700000000000\<rparr>,
       e_firmaDigital = \<lparr>fd_firmante = None, fechaFirma = None, fd_certificado = None,
                          fd_selloDigital = None\<rparr>,
       estado = Some ''borrador'',
       createdBy = Some 7,
       active = True \<rparr>"

definition exp_alterado :: expediente where
  "exp_alterado = exp_borrador\<lparr>e_documento := (e_documento exp_borrador)\<lparr>doc_hash := Some ''sha256:fiebre''\<rparr>\<rparr>"

definition exp_firmado :: expediente where
  "exp_firmado =
     exp_borrador\<lparr>e_firmaDigital := \<lparr>fd_firmante = Some 7, fechaFirma = Some 1700000100000,
                                       fd_certificado = None, fd_selloDigital = None\<rparr>,
                   estado := Some ''firmado''\<rparr>"

definition req_paciente :: request where
  "req_paciente = req_doctor\<lparr>req_user := \<lparr>u_id = 4, role = ''paciente'', pacienteId = Some 4\<rparr>\<rparr>"








section \<open>Auxiliary facts\<close>

lemma falla_vacia [simp]: "(falla ok r = []) = ok"
  by (simp add: falla_def)

lemma set_falla [simp]: "set (falla ok r) = (if ok then {} else {r})"
  by (simp add: falla_def)

lemma validar_auditLog_ip:
  "seg_ip (al_seguridad d) = None \<Longrightarrow> ''seguridad.ip'' \<in> set (validar_auditLog d)"
  by (simp add: validar_auditLog_def requeridoStr_def)

lemma validar_auditLog_exitoso:
  "res_exitoso (al_resultado d) = None \<Longrightarrow> ''resultado.exitoso'' \<in> set (validar_auditLog d)"
  by (simp add: validar_auditLog_def requerido_def)

lemma AuditLog_save_invalido:
  "validar_auditLog d \<noteq> [] \<Longrightarrow> AuditLog_save E d st = (Inl (ValidationError (validar_auditLog d)), st)"
  by (cases "validar_auditLog d") (simp_all add: AuditLog_save_def)

lemma AuditLog_save_no_nuevo:
  "validar_auditLog d = [] \<Longrightarrow> \<not> al_isNew d \<Longrightarrow> AuditLog_save E d st = (Inl (ErrorJS msg_inmutable), st)"
  by (simp add: AuditLog_save_def auditLog_pre_save_def)

lemma AuditLog_save_falla_estado:
  "AuditLog_save E d st = (Inl e, st') \<Longrightarrow> st' = st"
  by (auto simp: AuditLog_save_def auditLog_pre_save_def split: list.splits if_splits sum.splits)

lemma AuditLog_save_exito_nuevo:
  "AuditLog_save E d st = (Inr d', st') \<Longrightarrow> al_isNew d \<and> validar_auditLog d = []"
  by (auto simp: AuditLog_save_def auditLog_pre_save_def split: list.splits if_splits sum.splits)


lemma registrar_nunca_lanza:
  "\<exists>r st'. AuditLog_registrar E ahora dt st = (Inr r, st')"
  by (simp add: AuditLog_registrar_def split: prod.splits sum.splits)

lemma registrar_invalido:
  assumes "validar_auditLog (AuditLog_new ahora dt (proximoId st)) \<noteq> []"
  shows "AuditLog_registrar E ahora dt st =
           (Inr None, st\<lparr>proximoId := Suc (proximoId st),
                         consola := consola st @ [(''Error al registrar auditoria:'',
                            ValidationError (validar_auditLog (AuditLog_new ahora dt (proximoId st))))]\<rparr>)"
  using assms by (simp add: AuditLog_registrar_def registrar_try_def AuditLog_save_invalido)

lemma log_login_valido: "validar_auditLog log_login = []"
  by (simp add: log_login_def validar_auditLog_def requerido_def requeridoStr_def enEnum_def
        enum_rolUsuario_def enum_accion_def enum_entidadTipo_def)

lemma registrar_conserva:
  "AuditLog_registrar E ahora dt st = (r, st') \<Longrightarrow>
     firmas st' = firmas st \<and> expedientes st' = expedientes st \<and> caidas st' = caidas st"
  by (auto simp: AuditLog_registrar_def registrar_try_def AuditLog_save_def auditLog_pre_save_def
      split: prod.splits sum.splits list.splits if_splits)

lemma validar_firma_revocada:
  "validar_firma f = [] \<Longrightarrow> validar_firma (f\<lparr>f_estado := Some ''revocada'', f_revocacion := r\<rparr>) = []"
  by (simp add: validar_firma_def enEnum_def enum_estadoFirma_def)

lemma firma_ejemplo_valida: "validar_firma firma_ejemplo = []"
  by (simp add: firma_ejemplo_def validar_firma_def requerido_def requeridoStr_def enEnum_def
        enum_algoritmo_def enum_proposito_def enum_estadoFirma_def)

lemma Firma_revocar_exito:
  assumes "validar_firma f = []" "\<not> f_isNew f" "f_id f \<in> f_id ` set (firmas st)"
    "ColFirma \<notin> caidas st"
  shows "fst (Firma_revocar E ahora usr mot f st) =
           Inr (f\<lparr>f_estado := Some ''revocada'',
                  f_revocacion := \<lparr>rev_fecha = Some ahora, rev_motivo = mot,
                                    revocadaPor = Some (u_id usr)\<rparr>\<rparr>) \<and>
         firmas (snd (Firma_revocar E ahora usr mot f st)) =
           map (\<lambda>x. if f_id x = f_id f
                     then f\<lparr>f_estado := Some ''revocada'',
                            f_revocacion := \<lparr>rev_fecha = Some ahora, rev_motivo = mot,
                                              revocadaPor = Some (u_id usr)\<rparr>\<rparr>
                     else x) (firmas st)"
proof -
  let ?f1 = "f\<lparr>f_estado := Some ''revocada'',
               f_revocacion := \<lparr>rev_fecha = Some ahora, rev_motivo = mot,
                                 revocadaPor = Some (u_id usr)\<rparr>\<rparr>"
  let ?st1 = "st\<lparr>firmas := map (\<lambda>x. if f_id x = f_id f then ?f1 else x) (firmas st)\<rparr>"
  have s: "Firma_save ?f1 st = (Inr ?f1, ?st1)"
    using assms by (simp add: Firma_save_def validar_firma_revocada)
  obtain r st2 where a: "AuditLog_registrar E ahora (datos_revocar usr ?f1) ?st1 = (Inr r, st2)"
    using registrar_nunca_lanza by blast
  from registrar_conserva [OF a] have "firmas st2 = firmas ?st1" by simp
  with s a show ?thesis by (simp add: Firma_revocar_def)
qed

lemma Firma_revocar_estado:
  "Firma_revocar E ahora usr mot f st = (Inr f', st') \<Longrightarrow> f_estado f' = Some ''revocada''"
  by (auto simp: Firma_revocar_def Firma_save_def split: prod.splits sum.splits list.splits if_splits)






lemma datos_planos_validos: "validar_auditLog (AuditLog_new t datos_planos i) = []"
  by (simp add: AuditLog_new_def datos_planos_def validar_auditLog_def requerido_def requeridoStr_def
        enEnum_def enum_rolUsuario_def enum_accion_def enum_entidadTipo_def)

lemma AuditLog_new_nuevo: "al_isNew (AuditLog_new t dt i)"
  by (simp add: AuditLog_new_def)

lemma firma_revocada_valida: "validar_firma firma_revocada = []"
  by (simp add: firma_revocada_def validar_firma_revocada firma_ejemplo_valida)

lemma validar_firma_solicitud:
  "\<exists>ps. validar_firma (firma_de_solicitud ahora i c) = ''expediente'' # ps"
  by (simp add: validar_firma_def firma_de_solicitud_def falla_def requerido_def)

lemma Firma_save_solicitud:
  "Firma_save (firma_de_solicitud ahora i c) st =
     (Inl (ValidationError (validar_firma (firma_de_solicitud ahora i c))), st)"
proof -
  obtain ps where "validar_firma (firma_de_solicitud ahora i c) = ''expediente'' # ps"
    using validar_firma_solicitud by blast
  then show ?thesis by (simp add: Firma_save_def)
qed

lemma firmarExpediente_casos:
  "firmarExpediente E ahora req st =
     (if role (req_user req) \<noteq> ''doctor''
      then (Inl (AppError ''Solo doctores pueden firmar expedientes'' 403), st)
      else
        (case Expediente_findById st (params_id req) of
           None \<Rightarrow> (Inl (AppError ''No se encontro el expediente'' 404), st)
         | Some ex \<Rightarrow>
            if estado ex = Some ''firmado''
            then (Inl (AppError ''El expediente ya esta firmado'' 400), st)
            else
              (case body_certificado req of
                 None \<Rightarrow> (Inl (TypeError ''Cannot read properties of undefined''), st)
               | Some c \<Rightarrow>
                  (Inl (ValidationError (validar_firma (firma_de_solicitud ahora (proximoId st) c))),
                   st\<lparr>proximoId := Suc (proximoId st)\<rparr>))))"
  by (simp add: firmarExpediente_def Firma_save_solicitud split: option.splits)

lemma find_map_inv:
  assumes "\<And>x. P (g x) = P x"
  shows "find P (map g xs) = map_option g (find P xs)"
  using assms by (induction xs) simp_all














lemma desalojar_dentro: "dentro_tope tam sz mx (desalojar tam sz mx ds)"
  by (induction ds) (simp_all add: dentro_tope_def bytes_def)

lemma desalojar_sufijo: "\<exists>k. desalojar tam sz mx ds = drop k ds"
proof (induction ds)
  case Nil
  then show ?case by simp
next
  case (Cons d ds)
  show ?case
  proof (cases "dentro_tope tam sz mx (d # ds)")
    case True
    then have "desalojar tam sz mx (d # ds) = drop 0 (d # ds)" by simp
    then show ?thesis by blast
  next
    case False
    from Cons.IH obtain k where "desalojar tam sz mx ds = drop k ds" by blast
    with False have "desalojar tam sz mx (d # ds) = drop (Suc k) (d # ds)" by simp
    then show ?thesis by blast
  qed
qed

lemma desalojar_id: "dentro_tope tam sz mx ds \<Longrightarrow> desalojar tam sz mx ds = ds"
  by (cases ds) simp_all

lemma desalojar_ultimo:
  assumes "tam d \<le> sz" "1 \<le> mx"
  shows "desalojar tam sz mx (ds @ [d]) \<noteq> [] \<and> last (desalojar tam sz mx (ds @ [d])) = d"
  using assms by (induction ds) (simp_all add: dentro_tope_def bytes_def)

lemma desalojar_excede:
  assumes "\<not> dentro_tope tam sz mx ds"
  shows "\<exists>k\<ge>1. desalojar tam sz mx ds = drop k ds"
proof (cases ds)
  case Nil
  with assms show ?thesis by (simp add: dentro_tope_def bytes_def)
next
  case (Cons x xs)
  obtain k where "desalojar tam sz mx xs = drop k xs"
    using desalojar_sufijo by blast
  with assms Cons have "desalojar tam sz mx ds = drop (Suc k) ds" by simp
  then show ?thesis by (intro exI [of _ "Suc k"]) simp
qed

lemma desalojar_lleno_uno:
  assumes "length ds = mx" "1 \<le> mx" "bytes tam (tl ds @ [d]) \<le> sz"
  shows "desalojar tam sz mx (ds @ [d]) = tl ds @ [d]"
proof -
  from assms obtain x xs where ds: "ds = x # xs" by (cases ds) auto
  with assms have "\<not> dentro_tope tam sz mx (ds @ [d])" by (simp add: dentro_tope_def)
  with ds have a: "desalojar tam sz mx (ds @ [d]) = desalojar tam sz mx (xs @ [d])" by simp
  from assms ds have "dentro_tope tam sz mx (xs @ [d])" by (simp add: dentro_tope_def)
  with a ds show ?thesis by (simp add: desalojar_id)
qed

lemma AuditLog_save_exito:
  assumes "AuditLog_save E d st = (Inr d', st')"
  shows "d' = d\<lparr>al_isNew := False\<rparr> \<and> bsonSize E d' \<le> capped_size \<and>
         st' = st\<lparr>auditLogs := desalojar (bsonSize E) capped_size capped_max (auditLogs st @ [d'])\<rparr>"
  using assms
  by (auto simp: AuditLog_save_def auditLog_pre_save_def insertar_capped_def
      split: list.splits if_splits sum.splits)

lemma AuditLog_save_nuevo_valido:
  assumes "validar_auditLog d = []" "al_isNew d" "ColAuditLog \<notin> caidas st"
    "bsonSize E (d\<lparr>al_isNew := False\<rparr>) \<le> capped_size"
  shows "AuditLog_save E d st =
           (Inr (d\<lparr>al_isNew := False\<rparr>),
            st\<lparr>auditLogs := desalojar (bsonSize E) capped_size capped_max
                                (auditLogs st @ [d\<lparr>al_isNew := False\<rparr>])\<rparr>)"
  using assms by (simp add: AuditLog_save_def auditLog_pre_save_def insertar_capped_def)

lemma bytes_constante: "bytes (\<lambda>d. c) ds = c * length ds"
  by (induction ds) (simp_all add: bytes_def)

section \<open>The claims\<close>

text \<open>
  C10. \<open>registrar\<close> builds \<open>seguridad\<close> and \<open>resultado\<close> from the top-level keys of its
  argument, and the schema requires \<open>seguridad.ip\<close> and \<open>resultado.exitoso\<close>. So for every
  argument without a top-level \<open>ip\<close> or without a top-level \<open>exitoso\<close>, validation fails on
  that path, \<open>registrar\<close> returns \<open>null\<close>, nothing is persisted and the failure goes to the
  console. The arguments the callers of the repository build (the nested shape, and the one
  of \<open>revocar\<close>) are of that kind.
\<close>

theorem C10_registrar_campos_anidados:
  "(d_ip dt = None \<or> d_exitoso dt = None \<longrightarrow>
      fst (AuditLog_registrar E ahora dt st) = Inr None \<and>
      auditLogs (snd (AuditLog_registrar E ahora dt st)) = auditLogs st \<and>
      (\<exists>ps. (''seguridad.ip'' \<in> set ps \<or> ''resultado.exitoso'' \<in> set ps) \<and>
            consola (snd (AuditLog_registrar E ahora dt st)) =
              consola st @ [(''Error al registrar auditoria:'', ValidationError ps)])) \<and>
   d_ip (datos_anidados req acc ent det res) = None \<and>
   d_exitoso (datos_anidados req acc ent det res) = None \<and>
   d_ip (datos_revocar usr f) = None \<and>
   d_exitoso (datos_revocar usr f) = None"
proof -
  let ?d = "AuditLog_new ahora dt (proximoId st)"
  have "fst (AuditLog_registrar E ahora dt st) = Inr None \<and>
      auditLogs (snd (AuditLog_registrar E ahora dt st)) = auditLogs st \<and>
      (\<exists>ps. (''seguridad.ip'' \<in> set ps \<or> ''resultado.exitoso'' \<in> set ps) \<and>
            consola (snd (AuditLog_registrar E ahora dt st)) =
              consola st @ [(''Error al registrar auditoria:'', ValidationError ps)])"
    if h: "d_ip dt = None \<or> d_exitoso dt = None"
  proof -
    have m: "''seguridad.ip'' \<in> set (validar_auditLog ?d) \<or>
             ''resultado.exitoso'' \<in> set (validar_auditLog ?d)"
      using h validar_auditLog_ip [of ?d] validar_auditLog_exitoso [of ?d]
      by (auto simp: AuditLog_new_def)
    then have "validar_auditLog ?d \<noteq> []" by auto
    from registrar_invalido [OF this, of E] m show ?thesis by auto
  qed
  then show ?thesis
    by (simp add: datos_anidados_def datos_revocar_def)
qed

theorem C10_witness:
  "fst (AuditLog_registrar E0 0
          (datos_anidados req_doctor ''firmar'' \<lparr>ent_tipo = Some ''Expediente'', ent_id = Some 1\<rparr> None
             \<lparr>res_exitoso = Some True, res_mensaje = None, res_codigoError = None\<rparr>) st_vacio) = Inr None \<and>
   auditLogs (snd (AuditLog_registrar E0 0
          (datos_anidados req_doctor ''firmar'' \<lparr>ent_tipo = Some ''Expediente'', ent_id = Some 1\<rparr> None
             \<lparr>res_exitoso = Some True, res_mensaje = None, res_codigoError = None\<rparr>) st_vacio)) = []"
  using C10_registrar_campos_anidados [of
      "datos_anidados req_doctor ''firmar'' \<lparr>ent_tipo = Some ''Expediente'', ent_id = Some 1\<rparr> None
             \<lparr>res_exitoso = Some True, res_mensaje = None, res_codigoError = None\<rparr>" E0 0 st_vacio]
  by (simp add: datos_anidados_def st_vacio_def)

text \<open>
  C1, as the code has it. Every save of an audit document that is not new fails and leaves
  the database as it was: with the error of the hook when the document passes the schema's
  validation, and with the ValidationError otherwise, since validation runs before the
  hook. A save that succeeds is the save of a new document.
\<close>

theorem C1_guardar_no_nuevo:
  "(\<not> al_isNew d \<longrightarrow>
      AuditLog_save E d st =
        (Inl (if validar_auditLog d = [] then ErrorJS msg_inmutable
              else ValidationError (validar_auditLog d)), st)) \<and>
   (\<forall>d' st'. AuditLog_save E d st = (Inr d', st') \<longrightarrow> al_isNew d)"
proof (intro conjI impI allI)
  assume n: "\<not> al_isNew d"
  show "AuditLog_save E d st =
        (Inl (if validar_auditLog d = [] then ErrorJS msg_inmutable
              else ValidationError (validar_auditLog d)), st)"
  proof (cases "validar_auditLog d = []")
    case True
    with n show ?thesis by (simp add: AuditLog_save_no_nuevo)
  next
    case False
    then show ?thesis by (simp add: AuditLog_save_invalido)
  qed
next
  fix d' st'
  assume "AuditLog_save E d st = (Inr d', st')"
  then show "al_isNew d" by (rule AuditLog_save_exito_nuevo [THEN conjunct1])
qed

theorem C1_witness:
  "\<not> al_isNew log_login \<and>
   AuditLog_save E0 log_login (st_vacio\<lparr>auditLogs := [log_login]\<rparr>) =
     (Inl (ErrorJS msg_inmutable), st_vacio\<lparr>auditLogs := [log_login]\<rparr>)"
proof -
  have n: "\<not> al_isNew log_login" by (simp add: log_login_def)
  from C1_guardar_no_nuevo [of log_login E0 "st_vacio\<lparr>auditLogs := [log_login]\<rparr>"] n
  show ?thesis by (simp add: log_login_valido)
qed

text \<open>
  C1 as stated fails: the stored record \<open>log_login\<close>, loaded and given a role outside the
  enum, is refused by validation, not by the hook.
\<close>

theorem C1_counterexample:
  "\<not> al_isNew (log_login\<lparr>rolUsuario := Some ''root''\<rparr>) \<and>
   AuditLog_save E0 (log_login\<lparr>rolUsuario := Some ''root''\<rparr>) (st_vacio\<lparr>auditLogs := [log_login]\<rparr>) =
     (Inl (ValidationError [''rolUsuario'']), st_vacio\<lparr>auditLogs := [log_login]\<rparr>) \<and>
   ValidationError [''rolUsuario''] \<noteq> ErrorJS msg_inmutable"
  by (simp add: AuditLog_save_def log_login_def validar_auditLog_def requerido_def requeridoStr_def
        enEnum_def falla_def enum_rolUsuario_def enum_accion_def enum_entidadTipo_def)



text \<open>
  C3. \<open>verificarFirma\<close> checks the certificate window first, then the revocation, then the
  seal. Whenever the time of verification is before \<open>vigencia.inicio\<close> or after
  \<open>vigencia.fin\<close> the answer is \<open>{valida: false, mensaje: 'El certificado ha expirado'}\<close>,
  whatever the state of the signature and whatever the cryptographic check would say.
  Inside the window a revoked signature is answered as revoked, whatever the seal; otherwise
  the seal decides.
\<close>

theorem C3_verificarFirma_orden:
  "(\<forall>i. inicio (cert_vigencia (f_certificado f)) = Some i \<longrightarrow> ahora < i \<longrightarrow>
        verificarFirma E ahora f =
          \<lparr>valida = False, v_mensaje = ''El certificado ha expirado'', v_detalles = None, v_error = None\<rparr>) \<and>
   (\<forall>x. fin (cert_vigencia (f_certificado f)) = Some x \<longrightarrow> x < ahora \<longrightarrow>
        verificarFirma E ahora f =
          \<lparr>valida = False, v_mensaje = ''El certificado ha expirado'', v_detalles = None, v_error = None\<rparr>) \<and>
   (\<forall>i x. inicio (cert_vigencia (f_certificado f)) = Some i \<longrightarrow>
          fin (cert_vigencia (f_certificado f)) = Some x \<longrightarrow> i \<le> ahora \<longrightarrow> ahora \<le> x \<longrightarrow>
        (f_estado f = Some ''revocada'' \<longrightarrow>
           verificarFirma E ahora f =
             \<lparr>valida = False, v_mensaje = ''La firma ha sido revocada'',
              v_detalles = Some (f_revocacion f), v_error = None\<rparr>) \<and>
        (f_estado f \<noteq> Some ''revocada'' \<longrightarrow>
           valida (verificarFirma E ahora f) = (verificar_sello E f = Inr True)))"
  by (auto simp: verificarFirma_def antes_de_def despues_de_def split: sum.splits)

text \<open>
  The scenario of the specification: a certificate valid from 2020-01-01 to 2021-01-01,
  verified on 2022-01-01, for a revoked signature and for one whose seal is good.
\<close>

theorem C3_witness:
  "verificarFirma E0 1640995200000 firma_revocada =
     \<lparr>valida = False, v_mensaje = ''El certificado ha expirado'', v_detalles = None, v_error = None\<rparr> \<and>
   verificarFirma E0 1640995200000 firma_ejemplo =
     \<lparr>valida = False, v_mensaje = ''El certificado ha expirado'', v_detalles = None, v_error = None\<rparr> \<and>
   verificarFirma E0 1600000000000 firma_revocada =
     \<lparr>valida = False, v_mensaje = ''La firma ha sido revocada'',
      v_detalles = Some (f_revocacion firma_revocada), v_error = None\<rparr> \<and>
   valida (verificarFirma E0 1600000000000 firma_ejemplo)"
  using C3_verificarFirma_orden [of firma_revocada 1640995200000 E0]
    C3_verificarFirma_orden [of firma_ejemplo 1640995200000 E0]
    C3_verificarFirma_orden [of firma_revocada 1600000000000 E0]
    C3_verificarFirma_orden [of firma_ejemplo 1600000000000 E0]
  by (simp add: firma_revocada_def firma_ejemplo_def verificar_sello_def E0_def)

text \<open>
  C4, as the code has it. \<open>revocar\<close> does not look at the state of the signature. On every
  stored signature that passes the schema's validation, one already revoked included, it
  succeeds (the collection accepting writes), sets the state to \<open>'revocada'\<close> and replaces
  the revocation fields by the date, reason and user of this call. Whenever it succeeds the
  signature is in state \<open>'revocada'\<close>.
\<close>

theorem C4_revocar_sin_guarda:
  "(validar_firma f = [] \<longrightarrow> \<not> f_isNew f \<longrightarrow> f_id f \<in> f_id ` set (firmas st) \<longrightarrow>
    ColFirma \<notin> caidas st \<longrightarrow>
      fst (Firma_revocar E ahora usr mot f st) =
        Inr (f\<lparr>f_estado := Some ''revocada'',
               f_revocacion := \<lparr>rev_fecha = Some ahora, rev_motivo = mot,
                                 revocadaPor = Some (u_id usr)\<rparr>\<rparr>) \<and>
      firmas (snd (Firma_revocar E ahora usr mot f st)) =
        map (\<lambda>x. if f_id x = f_id f
                  then f\<lparr>f_estado := Some ''revocada'',
                         f_revocacion := \<lparr>rev_fecha = Some ahora, rev_motivo = mot,
                                           revocadaPor = Some (u_id usr)\<rparr>\<rparr>
                  else x) (firmas st)) \<and>
   (\<forall>f' st'. Firma_revocar E ahora usr mot f st = (Inr f', st') \<longrightarrow> f_estado f' = Some ''revocada'')"
  using Firma_revocar_exito [of f st E ahora usr mot] Firma_revocar_estado [of E ahora usr mot f]
  by blast

theorem C4_witness:
  "fst (Firma_revocar E0 1605000000000 admin0 (Some ''segundo motivo'') firma_ejemplo
          (st_vacio\<lparr>firmas := [firma_ejemplo]\<rparr>)) =
     Inr (firma_ejemplo\<lparr>f_estado := Some ''revocada'',
            f_revocacion := \<lparr>rev_fecha = Some 1605000000000, rev_motivo = Some ''segundo motivo'',
                              revocadaPor = Some 9\<rparr>\<rparr>)"
  using C4_revocar_sin_guarda [of firma_ejemplo "st_vacio\<lparr>firmas := [firma_ejemplo]\<rparr>" E0
      1605000000000 admin0 "Some ''segundo motivo''"]
  by (simp add: firma_ejemplo_valida) (simp add: firma_ejemplo_def st_vacio_def admin0_def)

text \<open>
  C4 as stated fails: \<open>revocar\<close> on a signature that is already revoked succeeds, and the
  stored revocation (date, reason, user) is replaced by that of the second call.
\<close>

theorem C4_counterexample:
  "f_estado firma_revocada = Some ''revocada'' \<and>
   fst (Firma_revocar E0 1605000000000 admin0 (Some ''segundo motivo'') firma_revocada
          (st_vacio\<lparr>firmas := [firma_revocada]\<rparr>)) =
     Inr (firma_revocada\<lparr>f_revocacion := \<lparr>rev_fecha = Some 1605000000000,
                                            rev_motivo = Some ''segundo motivo'',
                                            revocadaPor = Some 9\<rparr>\<rparr>) \<and>
   firmas (snd (Firma_revocar E0 1605000000000 admin0 (Some ''segundo motivo'') firma_revocada
          (st_vacio\<lparr>firmas := [firma_revocada]\<rparr>))) =
     [firma_revocada\<lparr>f_revocacion := \<lparr>rev_fecha = Some 1605000000000,
                                        rev_motivo = Some ''segundo motivo'',
                                        revocadaPor = Some 9\<rparr>\<rparr>] \<and>
   f_revocacion firma_revocada \<noteq> \<lparr>rev_fecha = Some 1605000000000,
                                    rev_motivo = Some ''segundo motivo'', revocadaPor = Some 9\<rparr>"
proof -
  have a: "\<not> f_isNew firma_revocada"
    "f_id firma_revocada \<in> f_id ` set (firmas (st_vacio\<lparr>firmas := [firma_revocada]\<rparr>))"
    "ColFirma \<notin> caidas (st_vacio\<lparr>firmas := [firma_revocada]\<rparr>)"
    by (simp_all add: firma_revocada_def firma_ejemplo_def st_vacio_def)
  from Firma_revocar_exito [OF firma_revocada_valida a, of E0 1605000000000 admin0 "Some ''segundo motivo''"]
  show ?thesis
    by (simp add: admin0_def) (simp add: firma_revocada_def firma_ejemplo_def)
qed

text \<open>
  C9, as the code has it. A sign request by a user with role \<open>'doctor'\<close>, on a record that
  \<open>findById\<close> returns (it exists and is not soft-deleted) and whose state is \<open>'firmado'\<close>,
  fails with \<open>AppError('El expediente ya esta firmado', 400)\<close> and leaves the whole database
  as it was: no signature is created and the record keeps its state. The two guards that
  come first answer the other requests: a user of another role gets the 403 error, and a
  record that is not found the 404 error, the database untouched as well.
\<close>

theorem C9_firmar_ya_firmado:
  "(role (req_user req) = ''doctor'' \<longrightarrow> Expediente_findById st (params_id req) = Some ex \<longrightarrow>
    estado ex = Some ''firmado'' \<longrightarrow>
      firmarExpediente E ahora req st = (Inl (AppError ''El expediente ya esta firmado'' 400), st)) \<and>
   (role (req_user req) \<noteq> ''doctor'' \<longrightarrow>
      firmarExpediente E ahora req st =
        (Inl (AppError ''Solo doctores pueden firmar expedientes'' 403), st)) \<and>
   (role (req_user req) = ''doctor'' \<longrightarrow> Expediente_findById st (params_id req) = None \<longrightarrow>
      firmarExpediente E ahora req st = (Inl (AppError ''No se encontro el expediente'' 404), st))"
  by (simp add: firmarExpediente_def)

theorem C9_witness:
  "firmarExpediente E0 1700000200000 req_doctor (st_vacio\<lparr>expedientes := [exp_firmado]\<rparr>) =
     (Inl (AppError ''El expediente ya esta firmado'' 400), st_vacio\<lparr>expedientes := [exp_firmado]\<rparr>)"
proof -
  have "Expediente_findById (st_vacio\<lparr>expedientes := [exp_firmado]\<rparr>) (params_id req_doctor) = Some exp_firmado"
    by (simp add: Expediente_findById_def exp_firmado_def exp_borrador_def req_doctor_def)
  moreover have "estado exp_firmado = Some ''firmado''" by (simp add: exp_firmado_def)
  moreover have "role (req_user req_doctor) = ''doctor''" by (simp add: req_doctor_def)
  ultimately show ?thesis
    using C9_firmar_ya_firmado [of req_doctor "st_vacio\<lparr>expedientes := [exp_firmado]\<rparr>" exp_firmado E0 1700000200000]
    by simp
qed

text \<open>
  C9 as stated fails: on a record in state \<open>'firmado'\<close>, a request by a patient is answered
  with the role error, and a doctor's request on the soft-deleted record with the 404 error.
\<close>

theorem C9_counterexample:
  "estado exp_firmado = Some ''firmado'' \<and>
   firmarExpediente E0 1700000200000 req_paciente (st_vacio\<lparr>expedientes := [exp_firmado]\<rparr>) =
     (Inl (AppError ''Solo doctores pueden firmar expedientes'' 403),
      st_vacio\<lparr>expedientes := [exp_firmado]\<rparr>) \<and>
   firmarExpediente E0 1700000200000 req_doctor
       (st_vacio\<lparr>expedientes := [exp_firmado\<lparr>active := False\<rparr>]\<rparr>) =
     (Inl (AppError ''No se encontro el expediente'' 404),
      st_vacio\<lparr>expedientes := [exp_firmado\<lparr>active := False\<rparr>]\<rparr>)"
  by (simp add: firmarExpediente_casos Expediente_findById_def exp_firmado_def req_paciente_def
        req_doctor_def)

text \<open>
  C2, as the code has it. \<open>firmarExpediente\<close> never compares the stored hash with the hash
  of the content: replace the stored hash of every record by any other value, and the
  request succeeds or fails as before, with the same error. In particular it never fails
  with the integrity error of the repository (\<open>'El documento ha sido alterado'\<close>, which
  \<open>downloadPDF\<close> raises).
\<close>

theorem C2_firmar_ignora_hash:
  "(\<forall>g. map_sum id (\<lambda>x. ())
          (fst (firmarExpediente E ahora req
             (st\<lparr>expedientes :=
                   map (\<lambda>e. e\<lparr>e_documento := (e_documento e)\<lparr>doc_hash := g e\<rparr>\<rparr>) (expedientes st)\<rparr>))) =
        map_sum id (\<lambda>x. ()) (fst (firmarExpediente E ahora req st))) \<and>
   fst (firmarExpediente E ahora req st) \<noteq> Inl (AppError ''El documento ha sido alterado'' 400)"
proof (intro conjI allI)
  fix g :: "expediente \<Rightarrow> string option"
  let ?h = "\<lambda>e. e\<lparr>e_documento := (e_documento e)\<lparr>doc_hash := g e\<rparr>\<rparr>"
  let ?st = "st\<lparr>expedientes := map ?h (expedientes st)\<rparr>"
  have f: "Expediente_findById ?st (params_id req) = map_option ?h (Expediente_findById st (params_id req))"
    unfolding Expediente_findById_def by (simp add: find_map_inv)
  show "map_sum id (\<lambda>x. ()) (fst (firmarExpediente E ahora req ?st)) =
        map_sum id (\<lambda>x. ()) (fst (firmarExpediente E ahora req st))"
    by (simp add: firmarExpediente_casos f split: option.splits)
next
  show "fst (firmarExpediente E ahora req st) \<noteq> Inl (AppError ''El documento ha sido alterado'' 400)"
    by (simp add: firmarExpediente_casos split: option.splits)
qed

text \<open>
  C2 as stated fails: for the record \<open>exp_alterado\<close>, whose stored hash is not the hash of
  its content, the sign request of a doctor fails with the ValidationError of \<open>Firma.create\<close>,
  and after the error handler has run the audit collection is still empty.
\<close>

theorem C2_counterexample:
  "\<not> verificarIntegridad E0 exp_alterado \<and>
   fst (catchAsync E0 1700000200000 (firmarExpediente E0 1700000200000) req_doctor
          (st_vacio\<lparr>expedientes := [exp_alterado]\<rparr>)) =
     Inl (ValidationError [''expediente'', ''firmante'', ''certificado.certificadoPublico'',
            ''firma.cadenaOriginal'', ''firma.selloDigital'', ''firma.hashDocumento'',
            ''metadata.proposito'']) \<and>
   auditLogs (snd (catchAsync E0 1700000200000 (firmarExpediente E0 1700000200000) req_doctor
          (st_vacio\<lparr>expedientes := [exp_alterado]\<rparr>))) = []"
proof -
  have v: "\<not> verificarIntegridad E0 exp_alterado"
    by (simp add: verificarIntegridad_def hashContenido_def exp_alterado_def exp_borrador_def E0_def)
  have f: "firmarExpediente E0 1700000200000 req_doctor (st_vacio\<lparr>expedientes := [exp_alterado]\<rparr>) =
      (Inl (ValidationError [''expediente'', ''firmante'', ''certificado.certificadoPublico'',
            ''firma.cadenaOriginal'', ''firma.selloDigital'', ''firma.hashDocumento'',
            ''metadata.proposito'']),
       st_vacio\<lparr>expedientes := [exp_alterado], proximoId := 1\<rparr>)"
    by (simp add: firmarExpediente_casos Expediente_findById_def exp_alterado_def exp_borrador_def
          req_doctor_def validar_firma_def firma_de_solicitud_def falla_def requerido_def
          requeridoStr_def enEnum_def enum_algoritmo_def enum_estadoFirma_def st_vacio_def)
  have l: "auditLogs (logError E0 t e req_doctor s) = auditLogs s" for t e s
  proof -
    obtain r s' where a: "AuditLog_registrar E0 t
             (datos_anidados req_doctor ''error_sistema'' \<lparr>ent_tipo = Some ''Sistema'', ent_id = None\<rparr>
                (Some [])
                \<lparr>res_exitoso = Some False, res_mensaje = Some (mensaje_de e),
                  res_codigoError = None\<rparr>) s = (Inr r, s')"
      using registrar_nunca_lanza by blast
    have "d_ip (datos_anidados req_doctor ''error_sistema'' \<lparr>ent_tipo = Some ''Sistema'', ent_id = None\<rparr>
                (Some [])
                \<lparr>res_exitoso = Some False, res_mensaje = Some (mensaje_de e),
                  res_codigoError = None\<rparr>) = None"
      by (simp add: datos_anidados_def)
    then have "validar_auditLog (AuditLog_new t (datos_anidados req_doctor ''error_sistema'' \<lparr>ent_tipo = Some ''Sistema'', ent_id = None\<rparr>
                (Some [])
                \<lparr>res_exitoso = Some False, res_mensaje = Some (mensaje_de e),
                  res_codigoError = None\<rparr>) (proximoId s)) \<noteq> []"
      using validar_auditLog_ip [of "AuditLog_new t (datos_anidados req_doctor ''error_sistema'' \<lparr>ent_tipo = Some ''Sistema'', ent_id = None\<rparr>
                (Some [])
                \<lparr>res_exitoso = Some False, res_mensaje = Some (mensaje_de e),
                  res_codigoError = None\<rparr>) (proximoId s)"]
      by (auto simp: AuditLog_new_def)
    from registrar_invalido [OF this, of E0] show ?thesis
      by (simp add: logError_def)
  qed
  from v f l show ?thesis by (simp add: catchAsync_def st_vacio_def)
qed





text \<open>
  C8. The audit collection is capped by the ceilings the schema states, 5242880 bytes and
  10000 documents, and never exceeds them: a save keeps the collection within both, and
  after a save that succeeds the collection holds the new record, as the newest one, found
  by every query whose filter it matches. What is removed is removed from the oldest end:
  the new collection is the old one with the new record appended and some oldest records
  dropped; at least one when the collection was at the count ceiling or the new record does
  not fit into the bytes left, and exactly the oldest one when the collection was at the
  count ceiling and that is enough for the size.
\<close>

theorem C8_coleccion_acotada:
  "capped_size = 5242880 \<and> capped_max = 10000 \<and>
   (dentro_tope (bsonSize E) capped_size capped_max (auditLogs st) \<longrightarrow>
      dentro_tope (bsonSize E) capped_size capped_max (auditLogs (snd (AuditLog_save E d st)))) \<and>
   (\<forall>d' st'. AuditLog_save E d st = (Inr d', st') \<longrightarrow>
      length (auditLogs st') \<le> capped_max \<and>
      bytes (bsonSize E) (auditLogs st') \<le> capped_size \<and>
      auditLogs st' \<noteq> [] \<and> last (auditLogs st') = d' \<and>
      (\<forall>q. coincide q d' \<longrightarrow> d' \<in> set (AuditLog_find q 0 (length (auditLogs st')) st')) \<and>
      (\<exists>k. auditLogs st' = drop k (auditLogs st @ [d'])) \<and>
      (length (auditLogs st) = capped_max \<or>
       capped_size < bytes (bsonSize E) (auditLogs st @ [d']) \<longrightarrow>
         (\<exists>k\<ge>1. auditLogs st' = drop k (auditLogs st @ [d']))) \<and>
      (length (auditLogs st) = capped_max \<longrightarrow>
       bytes (bsonSize E) (tl (auditLogs st) @ [d']) \<le> capped_size \<longrightarrow>
         auditLogs st' = tl (auditLogs st) @ [d']))"
proof (intro conjI impI allI)
  show "capped_size = 5242880" by (simp add: capped_size_def)
  show "capped_max = 10000" by (simp add: capped_max_def)
next
  assume i: "dentro_tope (bsonSize E) capped_size capped_max (auditLogs st)"
  obtain r st1 where s: "AuditLog_save E d st = (r, st1)" by (cases "AuditLog_save E d st")
  show "dentro_tope (bsonSize E) capped_size capped_max (auditLogs (snd (AuditLog_save E d st)))"
  proof (cases r)
    case (Inl e)
    with s AuditLog_save_falla_estado [of E d st e st1] i show ?thesis by simp
  next
    case (Inr d')
    with s AuditLog_save_exito [of E d st d' st1] show ?thesis by (simp add: desalojar_dentro)
  qed
next
  fix d' st'
  assume s: "AuditLog_save E d st = (Inr d', st')"
  let ?ds = "desalojar (bsonSize E) capped_size capped_max (auditLogs st @ [d'])"
  have t: "bsonSize E d' \<le> capped_size"
    by (rule AuditLog_save_exito [OF s, THEN conjunct2, THEN conjunct1])
  have "st' = st\<lparr>auditLogs := ?ds\<rparr>"
    by (rule AuditLog_save_exito [OF s, THEN conjunct2, THEN conjunct2])
  then have a: "auditLogs st' = ?ds" by simp
  have m: "1 \<le> capped_max" by (simp add: capped_max_def)
  from desalojar_dentro [of "bsonSize E" capped_size capped_max "auditLogs st @ [d']"] a
  show "length (auditLogs st') \<le> capped_max" "bytes (bsonSize E) (auditLogs st') \<le> capped_size"
    by (simp_all add: dentro_tope_def)
  from desalojar_ultimo [of "bsonSize E" d' capped_size capped_max "auditLogs st", OF t m] a
  show ne: "auditLogs st' \<noteq> []" and la: "last (auditLogs st') = d'" by simp_all
  from desalojar_sufijo [of "bsonSize E" capped_size capped_max "auditLogs st @ [d']"] a
  show "\<exists>k. auditLogs st' = drop k (auditLogs st @ [d'])" by simp
  {
    fix q
    assume c: "coincide q d'"
    from ne la have "d' \<in> set (auditLogs st')" by (metis last_in_set)
    with c have "d' \<in> set (filter (coincide q) (auditLogs st'))" by simp
    moreover have "length (filter (coincide q) (auditLogs st')) \<le> length (auditLogs st')"
      by (rule length_filter_le)
    ultimately show "d' \<in> set (AuditLog_find q 0 (length (auditLogs st')) st')"
      by (simp add: AuditLog_find_def ordenar_desc_def)
  }
  {
    assume "length (auditLogs st) = capped_max \<or>
       capped_size < bytes (bsonSize E) (auditLogs st @ [d'])"
    then have "\<not> dentro_tope (bsonSize E) capped_size capped_max (auditLogs st @ [d'])"
      by (auto simp: dentro_tope_def)
    from desalojar_excede [OF this] a
    show "\<exists>k\<ge>1. auditLogs st' = drop k (auditLogs st @ [d'])" by simp
  }
  {
    assume f: "length (auditLogs st) = capped_max"
    assume "bytes (bsonSize E) (tl (auditLogs st) @ [d']) \<le> capped_size"
    from desalojar_lleno_uno [of "auditLogs st" capped_max "bsonSize E" d' capped_size, OF f m this] a
    show "auditLogs st' = tl (auditLogs st) @ [d']" by simp
  }
qed

text \<open>A collection of 10000 records of 100 bytes each, and one more append.\<close>

theorem C8_witness:
  "length (replicate 10000 log_login) = capped_max \<and>
   AuditLog_save E0 (AuditLog_new 1707000000000 datos_planos 10001)
       (st_vacio\<lparr>auditLogs := replicate 10000 log_login\<rparr>) =
     (Inr ((AuditLog_new 1707000000000 datos_planos 10001)\<lparr>al_isNew := False\<rparr>),
      st_vacio\<lparr>auditLogs := replicate 9999 log_login @
                  [(AuditLog_new 1707000000000 datos_planos 10001)\<lparr>al_isNew := False\<rparr>]\<rparr>)"
proof -
  let ?d = "AuditLog_new 1707000000000 datos_planos 10001"
  let ?d' = "?d\<lparr>al_isNew := False\<rparr>"
  let ?st = "st_vacio\<lparr>auditLogs := replicate 10000 log_login\<rparr>"
  let ?ds = "desalojar (bsonSize E0) capped_size capped_max (auditLogs ?st @ [?d'])"
  have b: "bsonSize E0 = (\<lambda>d. 100)" by (simp add: E0_def)
  have s: "AuditLog_save E0 ?d ?st = (Inr ?d', ?st\<lparr>auditLogs := ?ds\<rparr>)"
    by (rule AuditLog_save_nuevo_valido)
       (simp_all add: datos_planos_validos AuditLog_new_nuevo st_vacio_def b capped_size_def)
  have f: "length (auditLogs ?st) = capped_max" by (simp add: capped_max_def)
  have tl: "tl (replicate 10000 log_login) = replicate 9999 log_login"
    by (simp add: tl_replicate)
  have y: "bytes (bsonSize E0) (tl (auditLogs ?st) @ [?d']) \<le> capped_size"
    by (simp add: b bytes_constante capped_size_def)
  from C8_coleccion_acotada [of E0 ?st ?d, THEN conjunct2, THEN conjunct2, THEN conjunct2,
      rule_format, OF s]
  have "length (auditLogs ?st) = capped_max \<longrightarrow>
        bytes (bsonSize E0) (tl (auditLogs ?st) @ [?d']) \<le> capped_size \<longrightarrow>
        auditLogs (?st\<lparr>auditLogs := ?ds\<rparr>) = tl (auditLogs ?st) @ [?d']"
    by (elim conjE)
  with f y have "?ds = tl (auditLogs ?st) @ [?d']" by simp
  with s tl show ?thesis by (simp add: capped_max_def)
qed

end
